theory Spec2Isabelle
  imports Main
begin

section \<open>Data model\<close>

text \<open>
  A \<open>time.Time\<close> is modelled by the signed number of nanoseconds that separate its instant
  from the zero instant \<open>time.Time{}\<close> (January 1, year 1, 00:00:00 UTC); \<open>IsZero\<close> and
  \<open>After\<close> of the Go library compare instants only. A \<open>time.Duration\<close> is an \<open>int64\<close>
  number of nanoseconds.
\<close>

type_synonym time = int
type_synonym duration = int

definition zeroTime :: time where
  "zeroTime = 0"

definition IsZero :: "time \<Rightarrow> bool" where
  "IsZero t = (t = 0)"

definition After :: "time \<Rightarrow> time \<Rightarrow> bool" where
  "After t u = (u < t)"

definition Second :: duration where
  "Second = 1000000000"


definition Minute :: duration where
  "Minute = 60 * Second"

text \<open>Go errors. \<open>Error\<close> is the method \<open>err.Error()\<close>, the message of the error.\<close>

datatype error =
    PathError string string string
  | ErrTooLong
  | ExitError string
  | Errorf string
  | ParseError string

fun Error :: "error \<Rightarrow> string" where
  "Error (PathError opn path cause) = opn @ '' '' @ path @ '': '' @ cause"
| "Error ErrTooLong = ''bufio.Scanner: token too long''"
| "Error (ExitError m) = m"
| "Error (Errorf m) = m"
| "Error (ParseError m) = m"

text \<open>The configuration structure \<open>config\<close> of \<open>main.go\<close>.\<close>

record config =
  SunriseCheckSeconds :: int
  SunshineLogPath :: string
  MonitorIsOffLogLine :: string
  EncoderFailedLogLine :: string
  EncoderFailedLogLine2 :: string
  WakeMonitorSleepSeconds :: int
  StopSunshineCommand :: string
  StartSunshineCommand :: string
  WakeMonitorCommand :: string
  EnableSunshineRestart :: bool
  RestartOnEncoderFailure :: bool

text \<open>
  What an opened file delivers to its reader: the bytes read, and the error (if any) with
  which a read fails after them.
\<close>

record fileData =
  bytes :: string
  readErr :: "error option"

text \<open>A directory entry of \<open>os.ReadDir\<close>: its name and whether it is a directory.\<close>

record dirEntry =
  entryName :: string
  entryIsDir :: bool

text \<open>
  Operands of a log call, kept as the program passes them (the log library renders them).
\<close>

datatype logArg = S string | I int | E error | T time | B bool | L "int list" | A "string list"

text \<open>
  Every interaction of the program with its surroundings is an event, recorded with its
  result, in the order in which the program performs it.
\<close>

datatype event =
    Println "logArg list"
  | Printf string "logArg list"
  | Fatal "logArg list"
  | Stat string "error + int"
  | Open string "error + fileData"
  | Truncate string int "error option"
  | Run "string list" "error option" string
  | Start "string list" "error option"
  | ReadDir string "error + dirEntry list"
  | ReadFile string "error + string"
  | Sleep duration
  | Now time

text \<open>
  The surroundings (file system, service manager, process table, clock, and the time
  parser of the Go library with the machine's local time zone) answer each call as a
  function of everything that happened before it.
\<close>

record env =
  statFile :: "event list \<Rightarrow> string \<Rightarrow> error + int"
  openFile :: "event list \<Rightarrow> string \<Rightarrow> error + fileData"
  truncateFile :: "event list \<Rightarrow> string \<Rightarrow> int \<Rightarrow> error option"
  runCmd :: "event list \<Rightarrow> string list \<Rightarrow> error option \<times> string"
  startCmd :: "event list \<Rightarrow> string list \<Rightarrow> error option"
  readDir :: "event list \<Rightarrow> string \<Rightarrow> error + dirEntry list"
  readFile :: "event list \<Rightarrow> string \<Rightarrow> error + string"
  clock :: "event list \<Rightarrow> time"
  parseInLocation :: "string \<Rightarrow> error + time"

text \<open>The package-level variables of \<open>main.go\<close>, and the events so far.\<close>

record state =
  lastLogSize :: int
  lastMonitorMissingTime :: time
  lastEncoderFailureTime :: time
  lastMainLoopTime :: time
  lastWakeTime :: time
  lastLogPosition :: int
  inWakeCycle :: bool
  trace :: "event list"

section \<open>Library calls\<close>

definition emit :: "event \<Rightarrow> state \<Rightarrow> state" where
  "emit e s = s\<lparr>trace := trace s @ [e]\<rparr>"

definition os_Stat :: "env \<Rightarrow> string \<Rightarrow> state \<Rightarrow> (error + int) \<times> state" where
  "os_Stat en path s = (let r = statFile en (trace s) path in (r, emit (Stat path r) s))"

definition os_Open :: "env \<Rightarrow> string \<Rightarrow> state \<Rightarrow> (error + fileData) \<times> state" where
  "os_Open en path s = (let r = openFile en (trace s) path in (r, emit (Open path r) s))"

definition os_Truncate :: "env \<Rightarrow> string \<Rightarrow> int \<Rightarrow> state \<Rightarrow> error option \<times> state" where
  "os_Truncate en path n s =
     (let r = truncateFile en (trace s) path n in (r, emit (Truncate path n r) s))"

definition cmd_Run :: "env \<Rightarrow> string list \<Rightarrow> state \<Rightarrow> (error option \<times> string) \<times> state" where
  "cmd_Run en args s =
     (let r = runCmd en (trace s) args in (r, emit (Run args (fst r) (snd r)) s))"

definition time_Sleep :: "duration \<Rightarrow> state \<Rightarrow> state" where
  "time_Sleep d s = emit (Sleep d) s"

definition time_Now :: "env \<Rightarrow> state \<Rightarrow> time \<times> state" where
  "time_Now en s = (let t = clock en (trace s) in (t, emit (Now t) s))"

text \<open>\<open>strings.HasPrefix\<close>, \<open>strings.Index\<close> and \<open>strings.Contains\<close> on byte strings.\<close>

fun HasPrefix :: "string \<Rightarrow> string \<Rightarrow> bool" where
  "HasPrefix s [] = True"
| "HasPrefix [] (p # ps) = False"
| "HasPrefix (x # xs) (p # ps) = (x = p \<and> HasPrefix xs ps)"

fun Index :: "string \<Rightarrow> string \<Rightarrow> int" where
  "Index [] sub = (if sub = [] then 0 else - 1)"
| "Index (x # xs) sub =
     (if HasPrefix (x # xs) sub then 0
      else (let i = Index xs sub in if i < 0 then - 1 else i + 1))"

definition Contains :: "string \<Rightarrow> string \<Rightarrow> bool" where
  "Contains s sub = (0 \<le> Index s sub)"

text \<open>
  \<open>bufio.Scanner\<close> with the split function \<open>ScanLines\<close> and the token limit \<open>m\<close> set by
  \<open>scanner.Buffer\<close>: the lines delivered by the successive calls of \<open>Scan\<close>, and the value
  of \<open>scanner.Err()\<close> after the call that returned false. A line is cut at the line feed,
  and one trailing carriage return is dropped. The scanner gives up with \<open>ErrTooLong\<close>
  when its buffer of \<open>m\<close> bytes is full and holds no complete line: a line needs its line
  feed within the first \<open>m\<close> bytes, an unterminated last line needs fewer than \<open>m\<close> bytes
  (the end of the input is seen only by a read into free buffer space).
\<close>

definition dropCR :: "string \<Rightarrow> string" where
  "dropCR l = (if l \<noteq> [] \<and> last l = CHR 0x0D then butlast l else l)"

fun scanFrom :: "nat \<Rightarrow> error option \<Rightarrow> string \<Rightarrow> string \<Rightarrow> string list \<times> error option" where
  "scanFrom m final cur [] =
     (if m \<le> length cur then ([], Some ErrTooLong)
      else if cur = [] then ([], final)
      else ([dropCR cur], final))"
| "scanFrom m final cur (x # xs) =
     (if x = CHR 0x0A then
        (if m < length cur + 1 then ([], Some ErrTooLong)
         else (case scanFrom m final [] xs of (ls, e) \<Rightarrow> (dropCR cur # ls, e)))
      else scanFrom m final (cur @ [x]) xs)"

definition maxTokenSize :: nat where
  "maxTokenSize = 1024 * 1024"

definition bufio_Scan :: "nat \<Rightarrow> fileData \<Rightarrow> string list \<times> error option" where
  "bufio_Scan m f = scanFrom m (readErr f) [] (bytes f)"

section \<open>The scans of \<open>main.go\<close>\<close>

definition parseSunshineTimestamp :: "env \<Rightarrow> string \<Rightarrow> error + time" where
  "parseSunshineTimestamp en line =
     (let endIdx = Index line '']'' in
      if \<not> HasPrefix line ''['' \<or> endIdx = - 1
      then Inl (Errorf ''sunshine log line missing timestamp brackets'')
      else (let timePortion = drop 1 (take (nat endIdx) line) in
            case parseInLocation en timePortion of
              Inl err \<Rightarrow> Inl err
            | Inr t \<Rightarrow> Inr t))"

definition isBufferOverflow :: "error option \<Rightarrow> bool" where
  "isBufferOverflow err =
     (case err of None \<Rightarrow> False | Some e \<Rightarrow> Contains (Error e) ''token too long'')"

definition resetMonitorTracking :: "state \<Rightarrow> state" where
  "resetMonitorTracking s = s\<lparr>lastMonitorMissingTime := zeroTime, lastEncoderFailureTime := zeroTime\<rparr>"

fun waitLoop :: "env \<Rightarrow> string \<Rightarrow> nat \<Rightarrow> state \<Rightarrow> bool \<times> state" where
  "waitLoop en serviceName 0 s = (False, s)"
| "waitLoop en serviceName (Suc n) s =
     (case cmd_Run en [''systemctl'', ''--user'', ''is-active'', serviceName] s of
        ((None, out), s1) \<Rightarrow> (True, emit (Printf ''Service %s is active'' [S serviceName]) s1)
      | ((Some err, out), s1) \<Rightarrow> waitLoop en serviceName n (time_Sleep (1 * Second) s1))"

definition waitForServiceActive :: "env \<Rightarrow> string \<Rightarrow> int \<Rightarrow> state \<Rightarrow> error option \<times> state" where
  "waitForServiceActive en serviceName timeoutSeconds s =
     (case waitLoop en serviceName (nat timeoutSeconds)
             (emit (Printf ''Waiting up to %d seconds for %s...'' [I timeoutSeconds, S serviceName]) s) of
        (True, s1) \<Rightarrow> (None, s1)
      | (False, s1) \<Rightarrow> (Some (Errorf (''timeout waiting for '' @ serviceName)), s1))"

definition restartSunshineSystemctlOnly :: "env \<Rightarrow> state \<Rightarrow> error option \<times> state" where
  "restartSunshineSystemctlOnly en s =
     (case cmd_Run en [''systemctl'', ''--user'', ''restart'', ''sunshine'']
             (emit (Println [S ''=== Restarting Sunshine via systemctl ==='']) s) of
        ((Some err, out), s1) \<Rightarrow>
          (Some err, emit (Println [S ''Waiting for next cycle...''])
                       (emit (Printf ''systemctl restart failed: %v'' [E err]) s1))
      | ((None, out), s1) \<Rightarrow>
          (case waitForServiceActive en ''sunshine'' 30
                  (emit (Println [S ''systemctl restart completed'']) s1) of
             (Some err, s2) \<Rightarrow>
               (Some err, emit (Printf ''Sunshine service did not become active: %v'' [E err]) s2)
           | (None, s2) \<Rightarrow> (None, s2\<lparr>lastLogPosition := 0, lastMainLoopTime := zeroTime\<rparr>)))"

definition handleCorruptedLog :: "env \<Rightarrow> config \<Rightarrow> state \<Rightarrow> error option \<times> state" where
  "handleCorruptedLog en c s =
     (case os_Truncate en (SunshineLogPath c) 0
             (emit (Println [S ''Truncating corrupted sunshine log'']) s) of
        (Some err, s1) \<Rightarrow> (Some err, emit (Println [S ''Failed to truncate log:'', E err]) s1)
      | (None, s1) \<Rightarrow>
          restartSunshineSystemctlOnly en
            (emit (Println [S ''Log truncated successfully, restarting sunshine'']) s1))"

fun monitorLoop :: "env \<Rightarrow> config \<Rightarrow> string list \<Rightarrow> time \<Rightarrow> state \<Rightarrow> time \<times> state" where
  "monitorLoop en c [] latestOccurrence s = (latestOccurrence, s)"
| "monitorLoop en c (line # rest) latestOccurrence s =
     (if \<not> Contains line (MonitorIsOffLogLine c) then monitorLoop en c rest latestOccurrence s
      else (case parseSunshineTimestamp en line of
              Inl err \<Rightarrow>
                monitorLoop en c rest latestOccurrence
                  (emit (Printf ''Unable to parse timestamp: %v'' [E err]) s)
            | Inr entryTime \<Rightarrow>
                monitorLoop en c rest
                  (if After entryTime latestOccurrence then entryTime else latestOccurrence) s))"

definition isMonitorSleeping :: "env \<Rightarrow> config \<Rightarrow> state \<Rightarrow> (bool \<times> error option) \<times> state" where
  "isMonitorSleeping en c s =
     (case os_Stat en (SunshineLogPath c) (emit (Println [S ''Checking if monitor is sleeping'']) s) of
        (Inl err, s1) \<Rightarrow> ((False, Some err), s1)
      | (Inr logSize, s1) \<Rightarrow>
          (let s2 = (if logSize < lastLogSize s1
                     then resetMonitorTracking
                            (emit (Println [S ''Sunshine log appears to have rotated; resetting tracking state'']) s1)
                     else s1);
               s3 = s2\<lparr>lastLogSize := logSize\<rparr>
           in case os_Open en (SunshineLogPath c) s3 of
                (Inl err, s4) \<Rightarrow> ((False, Some err), s4)
              | (Inr logFile, s4) \<Rightarrow>
                  (case bufio_Scan maxTokenSize logFile of
                     (lines, scanErr) \<Rightarrow>
                       (case monitorLoop en c lines zeroTime s4 of
                          (latestOccurrence, s5) \<Rightarrow>
                            (case scanErr of
                               Some err \<Rightarrow>
                                 (if isBufferOverflow (Some err)
                                  then (case handleCorruptedLog en c
                                               (emit (Println [S ''Detected corrupted log with lines too long - clearing log and restarting sunshine'']) s5) of
                                          (herr, s6) \<Rightarrow> ((False, herr), s6))
                                  else ((False, Some err), s5))
                             | None \<Rightarrow>
                                 (if IsZero latestOccurrence
                                  then ((False, None), emit (Println [S ''Monitor is not sleeping'']) s5)
                                  else if IsZero (lastMonitorMissingTime s5)
                                          \<or> After latestOccurrence (lastMonitorMissingTime s5)
                                  then ((True, None),
                                        emit (Println [S ''Monitor sleep detected at'', T latestOccurrence])
                                          (s5\<lparr>lastMonitorMissingTime := latestOccurrence\<rparr>))
                                  else ((False, None),
                                        emit (Println [S ''Monitor sleep already handled at'',
                                                       T (lastMonitorMissingTime s5)]) s5)))))))"

fun encoderLoop :: "env \<Rightarrow> config \<Rightarrow> string list \<Rightarrow> time \<Rightarrow> state \<Rightarrow> time \<times> state" where
  "encoderLoop en c [] latestOccurrence s = (latestOccurrence, s)"
| "encoderLoop en c (line # rest) latestOccurrence s =
     (if \<not> Contains line (EncoderFailedLogLine c) \<and> \<not> Contains line (EncoderFailedLogLine2 c)
      then encoderLoop en c rest latestOccurrence s
      else (case parseSunshineTimestamp en line of
              Inl err \<Rightarrow>
                encoderLoop en c rest latestOccurrence
                  (emit (Printf ''Unable to parse timestamp: %v'' [E err]) s)
            | Inr entryTime \<Rightarrow>
                encoderLoop en c rest
                  (if After entryTime latestOccurrence then entryTime else latestOccurrence) s))"

definition isEncoderFailed :: "env \<Rightarrow> config \<Rightarrow> state \<Rightarrow> (bool \<times> error option) \<times> state" where
  "isEncoderFailed en c s =
     (case os_Stat en (SunshineLogPath c) (emit (Println [S ''Checking for encoder failures'']) s) of
        (Inl err, s1) \<Rightarrow> ((False, Some err), s1)
      | (Inr logSize, s1) \<Rightarrow>
          (let s3 = s1\<lparr>lastLogSize := logSize\<rparr>
           in case os_Open en (SunshineLogPath c) s3 of
                (Inl err, s4) \<Rightarrow> ((False, Some err), s4)
              | (Inr logFile, s4) \<Rightarrow>
                  (case bufio_Scan maxTokenSize logFile of
                     (lines, scanErr) \<Rightarrow>
                       (case encoderLoop en c lines zeroTime s4 of
                          (latestOccurrence, s5) \<Rightarrow>
                            (case scanErr of
                               Some err \<Rightarrow>
                                 (if isBufferOverflow (Some err)
                                  then (case handleCorruptedLog en c
                                               (emit (Println [S ''Detected corrupted log with lines too long - clearing log and restarting sunshine'']) s5) of
                                          (herr, s6) \<Rightarrow> ((False, herr), s6))
                                  else ((False, Some err), s5))
                             | None \<Rightarrow>
                                 (if IsZero latestOccurrence
                                  then ((False, None), emit (Println [S ''No encoder failures detected'']) s5)
                                  else if IsZero (lastEncoderFailureTime s5)
                                          \<or> After latestOccurrence (lastEncoderFailureTime s5)
                                  then ((True, None),
                                        emit (Println [S ''Encoder failure detected at'', T latestOccurrence])
                                          (s5\<lparr>lastEncoderFailureTime := latestOccurrence\<rparr>))
                                  else ((False, None),
                                        emit (Println [S ''Encoder failure already handled at'',
                                                       T (lastEncoderFailureTime s5)]) s5)))))))"

section \<open>Process control\<close>

text \<open>
  \<open>strconv.Itoa\<close> and \<open>strconv.Atoi\<close> on an \<open>int\<close> of 64 bits, \<open>strings.TrimSpace\<close>,
  \<open>strings.Fields\<close> and \<open>strings.Split\<close> at a single space. White space is the white
  space of Unicode, as \<open>unicode.IsSpace\<close> has it, in its UTF-8 encoding: the six ASCII
  characters, U+0085 and U+00A0 (two bytes), and U+1680, U+2000 to U+200A, U+2028,
  U+2029, U+202F, U+205F and U+3000 (three bytes). Bytes that do not form one of these
  characters are never white space, whether they are valid UTF-8 or not.
\<close>

fun natDigits :: "nat \<Rightarrow> string" where
  "natDigits n =
     (if n < 10 then [''0123456789'' ! n]
      else natDigits (n div 10) @ [''0123456789'' ! (n mod 10)])"

declare natDigits.simps [simp del]

definition Itoa :: "int \<Rightarrow> string" where
  "Itoa i = (if i < 0 then CHR ''-'' # natDigits (nat (- i)) else natDigits (nat i))"

definition isDigit :: "char \<Rightarrow> bool" where
  "isDigit ch = (48 \<le> (of_char ch :: nat) \<and> (of_char ch :: nat) \<le> 57)"

definition digitsValue :: "string \<Rightarrow> int" where
  "digitsValue ds = foldl (\<lambda>n ch. 10 * n + (int (of_char ch) - 48)) 0 ds"

definition strconv_Atoi :: "string \<Rightarrow> int option" where
  "strconv_Atoi str =
     (let neg = (str \<noteq> [] \<and> hd str = CHR ''-'');
          ds = (if str \<noteq> [] \<and> (hd str = CHR ''-'' \<or> hd str = CHR ''+'') then tl str else str)
      in if ds = [] \<or> \<not> list_all isDigit ds then None
         else (let v = (if neg then - digitsValue ds else digitsValue ds)
               in if v < - (2 ^ 63) \<or> 2 ^ 63 - 1 < v then None else Some v))"

definition asciiSpace :: "char \<Rightarrow> bool" where
  "asciiSpace ch = (ch = CHR 0x09 \<or> ch = CHR 0x0A \<or> ch = CHR 0x0B \<or> ch = CHR 0x0C
                    \<or> ch = CHR 0x0D \<or> ch = CHR '' '')"

definition space2 :: "char \<Rightarrow> char \<Rightarrow> bool" where
  "space2 a b = (a = CHR 0xC2 \<and> (b = CHR 0x85 \<or> b = CHR 0xA0))"

definition space3 :: "char \<Rightarrow> char \<Rightarrow> char \<Rightarrow> bool" where
  "space3 a b c =
     ((a = CHR 0xE1 \<and> b = CHR 0x9A \<and> c = CHR 0x80)
      \<or> (a = CHR 0xE2 \<and> b = CHR 0x80
          \<and> ((0x80 \<le> (of_char c :: nat) \<and> (of_char c :: nat) \<le> 0x8A)
              \<or> c = CHR 0xA8 \<or> c = CHR 0xA9 \<or> c = CHR 0xAF))
      \<or> (a = CHR 0xE2 \<and> b = CHR 0x81 \<and> c = CHR 0x9F)
      \<or> (a = CHR 0xE3 \<and> b = CHR 0x80 \<and> c = CHR 0x80))"

text \<open>
  \<open>trimSpaces False\<close> removes the white space characters at the front of a string, as
  \<open>TrimLeftFunc\<close> with \<open>unicode.IsSpace\<close> does. \<open>trimSpaces True\<close> does the same on a
  reversed string, where the bytes of a character come last byte first: it is
  \<open>TrimRightFunc\<close>, which decodes the last character of the string.
\<close>

fun trimSpaces :: "bool \<Rightarrow> string \<Rightarrow> string" where
  "trimSpaces back (x # y # z # rest) =
     (if asciiSpace x then trimSpaces back (y # z # rest)
      else if (if back then space2 y x else space2 x y) then trimSpaces back (z # rest)
      else if (if back then space3 z y x else space3 x y z) then trimSpaces back rest
      else x # y # z # rest)"
| "trimSpaces back [x, y] =
     (if asciiSpace x then trimSpaces back [y]
      else if (if back then space2 y x else space2 x y) then []
      else [x, y])"
| "trimSpaces back [x] = (if asciiSpace x then [] else [x])"
| "trimSpaces back [] = []"

definition TrimSpace :: "string \<Rightarrow> string" where
  "TrimSpace str = rev (trimSpaces True (rev (trimSpaces False str)))"

definition endField :: "string \<Rightarrow> string list \<Rightarrow> string list" where
  "endField cur fs = (if cur = [] then fs else cur # fs)"






definition os_ReadDir :: "env \<Rightarrow> string \<Rightarrow> state \<Rightarrow> (error + dirEntry list) \<times> state" where
  "os_ReadDir en path s = (let r = readDir en (trace s) path in (r, emit (ReadDir path r) s))"

definition os_ReadFile :: "env \<Rightarrow> string \<Rightarrow> state \<Rightarrow> (error + string) \<times> state" where
  "os_ReadFile en path s = (let r = readFile en (trace s) path in (r, emit (ReadFile path r) s))"

text \<open>
  \<open>cmd.Start()\<close>; where the source then waits for the child in a goroutine of its own, the
  wait is not part of the sequential model.
\<close>

definition cmd_Start :: "env \<Rightarrow> string list \<Rightarrow> state \<Rightarrow> error option \<times> state" where
  "cmd_Start en args s = (let r = startCmd en (trace s) args in (r, emit (Start args r) s))"

fun pidLoop :: "env \<Rightarrow> dirEntry list \<Rightarrow> int list \<Rightarrow> state \<Rightarrow> int list \<times> state" where
  "pidLoop en [] pids s = (pids, s)"
| "pidLoop en (entry # rest) pids s =
     (if \<not> entryIsDir entry then pidLoop en rest pids s
      else (case strconv_Atoi (entryName entry) of
              None \<Rightarrow> pidLoop en rest pids s
            | Some pid \<Rightarrow>
                (case os_ReadFile en (''/proc/'' @ Itoa pid @ ''/comm'') s of
                   (Inl err, s1) \<Rightarrow> pidLoop en rest pids s1
                 | (Inr data, s1) \<Rightarrow>
                     (if TrimSpace data = ''sunshine'' then pidLoop en rest (pids @ [pid]) s1
                      else pidLoop en rest pids s1))))"

definition getSunshinePIDs :: "env \<Rightarrow> state \<Rightarrow> int list \<times> state" where
  "getSunshinePIDs en s =
     (case os_ReadDir en ''/proc'' s of
        (Inl err, s1) \<Rightarrow> ([], emit (Println [S ''Could not read /proc:'', E err]) s1)
      | (Inr entries, s1) \<Rightarrow> pidLoop en entries [] s1)"

definition killProcess :: "env \<Rightarrow> int \<Rightarrow> int \<Rightarrow> state \<Rightarrow> error option \<times> state" where
  "killProcess en pid signal s =
     (case cmd_Run en [''kill'', ''-'' @ Itoa signal, Itoa pid] s of
        ((err, out), s1) \<Rightarrow> (err, s1))"

fun termLoop :: "env \<Rightarrow> int list \<Rightarrow> state \<Rightarrow> state" where
  "termLoop en [] s = s"
| "termLoop en (pid # rest) s =
     (case killProcess en pid 15 (emit (Printf ''Sending SIGTERM to PID %d...'' [I pid]) s) of
        (Some err, s1) \<Rightarrow>
          termLoop en rest (emit (Printf ''SIGTERM to PID %d failed: %v'' [I pid, E err]) s1)
      | (None, s1) \<Rightarrow> termLoop en rest s1)"

fun killLoop :: "env \<Rightarrow> int list \<Rightarrow> state \<Rightarrow> state" where
  "killLoop en [] s = s"
| "killLoop en (pid # rest) s =
     (case killProcess en pid 9 s of
        (Some err, s1) \<Rightarrow>
          killLoop en rest (emit (Printf ''SIGKILL to PID %d failed: %v'' [I pid, E err]) s1)
      | (None, s1) \<Rightarrow> killLoop en rest s1)"

definition killAllSunshineProcesses :: "env \<Rightarrow> state \<Rightarrow> error option \<times> state" where
  "killAllSunshineProcesses en s =
     (case getSunshinePIDs en (emit (Println [S ''Killing all sunshine processes...'']) s) of
        (pids, s1) \<Rightarrow>
          (if length pids = 0 then (None, emit (Println [S ''No sunshine processes found'']) s1)
           else (case getSunshinePIDs en
                        (time_Sleep (2 * Second)
                          (termLoop en pids
                            (emit (Printf ''Found %d sunshine process(es) to kill: %v''
                                     [I (int (length pids)), L pids]) s1))) of
                   (remainingPids, s2) \<Rightarrow>
                     (if length remainingPids > 0
                      then (None, killLoop en remainingPids
                                    (emit (Printf ''Force killing %d remaining process(es): %v''
                                             [I (int (length remainingPids)), L remainingPids]) s2))
                      else (None, s2)))))"







section \<open>The wake cycle of \<open>main.go\<close>\<close>

definition maxDuration :: duration where
  "maxDuration = 2 ^ 63 - 1"

definition minDuration :: duration where
  "minDuration = - (2 ^ 63)"

text \<open>\<open>t.Sub(u)\<close> saturates at the ends of the range of \<open>Duration\<close>.\<close>

definition Sub :: "time \<Rightarrow> time \<Rightarrow> duration" where
  "Sub t u =
     (let d = t - u in
      if maxDuration < d then maxDuration else if d < minDuration then minDuration else d)"

definition time_Since :: "env \<Rightarrow> time \<Rightarrow> state \<Rightarrow> duration \<times> state" where
  "time_Since en t s = (case time_Now en s of (n, s1) \<Rightarrow> (Sub n t, s1))"

definition shouldWakeMonitor :: "env \<Rightarrow> duration \<Rightarrow> state \<Rightarrow> bool \<times> state" where
  "shouldWakeMonitor en cooldownPeriod s =
     (case time_Since en (lastMainLoopTime s) s of
        (d1, s1) \<Rightarrow>
          (if d1 < cooldownPeriod
           then (False, emit (Println [S ''Sunshine recently ready - skipping wake'']) s1)
           else (case time_Since en (lastWakeTime s1) s1 of
                   (d2, s2) \<Rightarrow>
                     (if d2 < cooldownPeriod
                      then (False, emit (Println [S ''In cooldown period - skipping wake'']) s2)
                      else (True, s2)))))"

definition checkForLogActivity :: "env \<Rightarrow> config \<Rightarrow> state \<Rightarrow> bool \<times> state" where
  "checkForLogActivity en c s =
     (case os_Stat en (SunshineLogPath c) s of
        (Inl err, s1) \<Rightarrow> (False, s1)
      | (Inr logSize, s1) \<Rightarrow>
          (if logSize > lastLogPosition s1 then (True, s1\<lparr>lastLogPosition := logSize\<rparr>)
           else (False, s1)))"








section \<open>The periodic loop\<close>



subsection \<open>The earliest variant (the last program of \<open>src/unnamed/part_002\<close>)\<close>











section \<open>Notions used to state the properties\<close>

text \<open>
  The classification of the specification: the latest timestamp parsed on the matching
  lines (the zero time when there is none), compared with the last handled one.
  \<open>latestParsed\<close> folds over the lines as the scanner delivers them; \<open>classify\<close> takes
  the answers of the file system to the stat and to the open of the scan.
\<close>

definition latestParsed :: "env \<Rightarrow> (string \<Rightarrow> bool) \<Rightarrow> string list \<Rightarrow> time \<Rightarrow> time" where
  "latestParsed en matches ls start =
     foldl (\<lambda>acc line.
              if matches line
              then (case parseSunshineTimestamp en line of Inl err \<Rightarrow> acc | Inr t \<Rightarrow> max acc t)
              else acc) start ls"

definition encoderMatch :: "config \<Rightarrow> string \<Rightarrow> bool" where
  "encoderMatch c line =
     (Contains line (EncoderFailedLogLine c) \<or> Contains line (EncoderFailedLogLine2 c))"



text \<open>The three variables that carry the deduplication from one scan to the next.\<close>

definition dedupState :: "state \<Rightarrow> int \<times> time \<times> time" where
  "dedupState s = (lastLogSize s, lastMonitorMissingTime s, lastEncoderFailureTime s)"







text \<open>The commands run, in order, among the events.\<close>

fun commandsRun :: "event list \<Rightarrow> string list list" where
  "commandsRun [] = []"
| "commandsRun (Run args err out # es) = args # commandsRun es"
| "commandsRun (e # es) = commandsRun es"


text \<open>
  The events of a run of failed polls of the service manager: each failed \<open>is-active\<close>
  query is followed by a sleep of one second.
\<close>

definition failedPolls :: "string \<Rightarrow> (error \<times> string) list \<Rightarrow> event list" where
  "failedPolls serviceName fails =
     concat (map (\<lambda>(err, out).
                    [Run [''systemctl'', ''--user'', ''is-active'', serviceName] (Some err) out,
                     Sleep (1 * Second)]) fails)"

text \<open>
  The failed commands among the events, with their errors; the log lines of a given
  format that report a process identifier with an error; and the process identifiers
  that \<open>/proc\<close> shows under the name \<open>sunshine\<close> when \<open>comm\<close> gives the content of each
  file.
\<close>

fun failedRuns :: "event list \<Rightarrow> (string list \<times> error) list" where
  "failedRuns [] = []"
| "failedRuns (Run args (Some err) out # es) = (args, err) # failedRuns es"
| "failedRuns (e # es) = failedRuns es"

fun failureLogs :: "string \<Rightarrow> event list \<Rightarrow> (int \<times> error) list" where
  "failureLogs fmt [] = []"
| "failureLogs fmt (Printf f [I pid, E err] # es) =
     (if f = fmt then (pid, err) # failureLogs fmt es else failureLogs fmt es)"
| "failureLogs fmt (e # es) = failureLogs fmt es"

definition matchingPIDs :: "(string \<Rightarrow> error + string) \<Rightarrow> dirEntry list \<Rightarrow> int list" where
  "matchingPIDs comm entries =
     concat (map (\<lambda>entry.
                    if entryIsDir entry
                    then (case strconv_Atoi (entryName entry) of
                            None \<Rightarrow> []
                          | Some pid \<Rightarrow>
                              (case comm (''/proc/'' @ Itoa pid @ ''/comm'') of
                                 Inl err \<Rightarrow> []
                               | Inr data \<Rightarrow> if TrimSpace data = ''sunshine'' then [pid] else []))
                    else []) entries)"

section \<open>A concrete environment for running the model\<close>

text \<open>
  \<open>parseLayoutUTC\<close> stands for \<open>time.ParseInLocation("2006-01-02 15:04:05.000", v, time.Local)\<close>
  on a machine whose local time is UTC. It reads the timestamps of the exact form
  \<open>YYYY-MM-DD HH:MM:SS.mmm\<close> as the library does and refuses every other string (the
  library accepts a few more, such as an hour of one digit). The theorems below hold for
  every parser; this one only serves to run the model on examples.
\<close>

definition isLeap :: "int \<Rightarrow> bool" where
  "isLeap y = (y mod 4 = 0 \<and> (y mod 100 \<noteq> 0 \<or> y mod 400 = 0))"

definition daysBeforeYear :: "int \<Rightarrow> int" where
  "daysBeforeYear y = 365 * (y - 1) + (y - 1) div 4 - (y - 1) div 100 + (y - 1) div 400"

definition daysBeforeMonth :: "int \<Rightarrow> int \<Rightarrow> int" where
  "daysBeforeMonth y m =
     [0, 31, 59, 90, 120, 151, 181, 212, 243, 273, 304, 334] ! nat (m - 1)
       + (if isLeap y \<and> 2 < m then 1 else 0)"

definition daysIn :: "int \<Rightarrow> int \<Rightarrow> int" where
  "daysIn y m =
     (if m = 2 then (if isLeap y then 29 else 28)
      else [31, 28, 31, 30, 31, 30, 31, 31, 30, 31, 30, 31] ! nat (m - 1))"

definition parseLayoutUTC :: "string \<Rightarrow> error + time" where
  "parseLayoutUTC v =
     (if length v \<noteq> 23 \<or> v ! 4 \<noteq> CHR ''-'' \<or> v ! 7 \<noteq> CHR ''-'' \<or> v ! 10 \<noteq> CHR '' ''
         \<or> v ! 13 \<noteq> CHR '':'' \<or> v ! 16 \<noteq> CHR '':'' \<or> v ! 19 \<noteq> CHR ''.''
         \<or> \<not> list_all isDigit (take 4 v @ take 2 (drop 5 v) @ take 2 (drop 8 v)
               @ take 2 (drop 11 v) @ take 2 (drop 14 v) @ take 2 (drop 17 v) @ drop 20 v)
      then Inl (ParseError ''cannot parse timestamp'')
      else (let year = digitsValue (take 4 v); month = digitsValue (take 2 (drop 5 v));
                day = digitsValue (take 2 (drop 8 v)); hour = digitsValue (take 2 (drop 11 v));
                minute = digitsValue (take 2 (drop 14 v)); sec = digitsValue (take 2 (drop 17 v));
                msec = digitsValue (drop 20 v)
            in if month < 1 \<or> 12 < month \<or> day < 1 \<or> daysIn year month < day
                  \<or> 24 \<le> hour \<or> 60 \<le> minute \<or> 60 \<le> sec
               then Inl (ParseError ''timestamp out of range'')
               else Inr (((((daysBeforeYear year + daysBeforeMonth year month + (day - 1)) * 24
                             + hour) * 60 + minute) * 60 + sec) * 1000000000 + msec * 1000000)))"

text \<open>
  \<open>quietEnv log\<close>: the log file holds the bytes \<open>log\<close> and never changes, every command
  succeeds and prints nothing, process number 4242 is the only \<open>sunshine\<close> in the process
  table, and the clock stands at noon of January 2, 2025.
\<close>

definition exampleNow :: time where
  "exampleNow = 63871416000 * 1000000000"

definition quietEnv :: "string \<Rightarrow> env" where
  "quietEnv log =
     \<lparr> statFile = (\<lambda>tr path. Inr (int (length log))),
       openFile = (\<lambda>tr path. Inr \<lparr> bytes = log, readErr = None \<rparr>),
       truncateFile = (\<lambda>tr path n. None),
       runCmd = (\<lambda>tr args. (None, [])),
       startCmd = (\<lambda>tr args. None),
       readDir = (\<lambda>tr path. Inr [\<lparr> entryName = ''4242'', entryIsDir = True \<rparr>]),
       readFile = (\<lambda>tr path. Inr (''sunshine'' @ [CHR 0x0A])),
       clock = (\<lambda>tr. exampleNow),
       parseInLocation = parseLayoutUTC \<rparr>"

definition exampleConfig :: config where
  "exampleConfig =
     \<lparr> SunriseCheckSeconds = 5,
       SunshineLogPath = ''/home/user/.config/sunshine/sunshine.log'',
       MonitorIsOffLogLine = ''Error: Couldn't find monitor'',
       EncoderFailedLogLine = ''Fatal: Unable to find display or encoder during startup.'',
       EncoderFailedLogLine2 = ''Error: Video failed to find working encoder'',
       WakeMonitorSleepSeconds = 5,
       StopSunshineCommand = ''killall sunshine'',
       StartSunshineCommand = ''sunshine'',
       WakeMonitorCommand = ''ydotool mousemove --absolute 100 100'',
       EnableSunshineRestart = True,
       RestartOnEncoderFailure = True \<rparr>"

definition initialState :: state where
  "initialState =
     \<lparr> lastLogSize = 0, lastMonitorMissingTime = zeroTime, lastEncoderFailureTime = zeroTime,
       lastMainLoopTime = zeroTime, lastWakeTime = zeroTime, lastLogPosition = 0,
       inWakeCycle = False, trace = [] \<rparr>"





definition olderLog :: string where
  "olderLog =
     ''[2025-01-01 09:30:00.000] Fatal: Unable to find display or encoder during startup.''
     @ [CHR 0x0A]"

definition rotatedState :: state where
  "rotatedState =
     initialState \<lparr> lastLogSize := 138, lastMonitorMissingTime := 63871322400000000000,
                    lastEncoderFailureTime := 63871322401000000000 \<rparr>"


definition idleEnv :: env where
  "idleEnv = (quietEnv []) \<lparr> readDir := (\<lambda>tr path. Inr []) \<rparr>"


definition slowStartEnv :: env where
  "slowStartEnv =
     (quietEnv [])
       \<lparr> runCmd := (\<lambda>tr args.
            if args = [''systemctl'', ''--user'', ''is-active'', ''sunshine''] \<and> length (commandsRun tr) < 2
            then (Some (ExitError ''exit status 3''), ''activating'' @ [CHR 0x0A])
            else (None, [])) \<rparr>"

definition downEnv :: env where
  "downEnv =
     (quietEnv [])
       \<lparr> runCmd := (\<lambda>tr args.
            if args = [''systemctl'', ''--user'', ''is-active'', ''sunshine'']
            then (Some (ExitError ''exit status 3''), ''inactive'' @ [CHR 0x0A])
            else (None, [])) \<rparr>"

section \<open>Properties of the library calls and of the loops\<close>

lemma Index_empty: "Index str [] = 0"
  by (cases str) simp_all

lemma Contains_empty: "Contains str []"
  by (simp add: Contains_def Index_empty)

lemma emit_fields [simp]:
  "lastLogSize (emit e s) = lastLogSize s"
  "lastMonitorMissingTime (emit e s) = lastMonitorMissingTime s"
  "lastEncoderFailureTime (emit e s) = lastEncoderFailureTime s"
  "lastMainLoopTime (emit e s) = lastMainLoopTime s"
  "lastWakeTime (emit e s) = lastWakeTime s"
  "lastLogPosition (emit e s) = lastLogPosition s"
  "inWakeCycle (emit e s) = inWakeCycle s"
  "trace (emit e s) = trace s @ [e]"
  by (simp_all add: emit_def)

lemma dedupState_emit [simp]: "dedupState (emit e s) = dedupState s"
  by (simp add: dedupState_def)

lemma dedupState_update [simp]:
  "dedupState (s\<lparr>lastLogPosition := a\<rparr>) = dedupState s"
  "dedupState (s\<lparr>lastMainLoopTime := b\<rparr>) = dedupState s"
  "dedupState (s\<lparr>lastWakeTime := b\<rparr>) = dedupState s"
  "dedupState (s\<lparr>inWakeCycle := d\<rparr>) = dedupState s"
  "dedupState (s\<lparr>trace := tr\<rparr>) = dedupState s"
  by (simp_all add: dedupState_def)

lemma dedupState_Sleep [simp]: "dedupState (time_Sleep d s) = dedupState s"
  by (simp add: time_Sleep_def)

lemma os_Stat_dedup: "os_Stat en p s = (r, s') \<Longrightarrow> dedupState s' = dedupState s"
  by (auto simp: os_Stat_def Let_def)

lemma os_Open_dedup: "os_Open en p s = (r, s') \<Longrightarrow> dedupState s' = dedupState s"
  by (auto simp: os_Open_def Let_def)



lemma encoderLoop_fst:
  "fst (encoderLoop en c ls l s) = latestParsed en (encoderMatch c) ls l"
  unfolding latestParsed_def
  by (induction ls arbitrary: l s) (auto simp: After_def max_def encoderMatch_def split: sum.splits)

















lemmas space_defs = asciiSpace_def space2_def space3_def endField_def

lemmas parse_defs =
  parseSunshineTimestamp_def parseLayoutUTC_def isDigit_def digitsValue_def daysIn_def
  daysBeforeYear_def daysBeforeMonth_def isLeap_def

lemmas call_defs =
  Let_def os_Stat_def os_Open_def os_Truncate_def cmd_Run_def cmd_Start_def os_ReadDir_def
  os_ReadFile_def time_Sleep_def time_Now_def emit_def





lemmas scan_defs =
  isEncoderFailed_def isMonitorSleeping_def resetMonitorTracking_def Contains_def
  IsZero_def After_def zeroTime_def bufio_Scan_def maxTokenSize_def dropCR_def














lemma failedPolls_Nil [simp]: "failedPolls nm [] = []"
  by (simp add: failedPolls_def)

lemma failedPolls_Cons:
  "failedPolls nm ((err, out) # fails) =
     [Run [''systemctl'', ''--user'', ''is-active'', nm] (Some err) out, Sleep (1 * Second)]
       @ failedPolls nm fails"
  by (simp add: failedPolls_def)

lemma waitLoop_shape:
  "waitLoop en nm n s = (ok, s') \<Longrightarrow>
     \<exists>fails. trace s' = trace s @ failedPolls nm fails
                 @ (if ok then [Run [''systemctl'', ''--user'', ''is-active'', nm] None
                                  (snd (runCmd en (trace s @ failedPolls nm fails)
                                          [''systemctl'', ''--user'', ''is-active'', nm])),
                                Printf ''Service %s is active'' [S nm]]
                    else [])
        \<and> (if ok then length fails < n else length fails = n)
        \<and> lastLogPosition s' = lastLogPosition s \<and> lastMainLoopTime s' = lastMainLoopTime s"
proof (induction n arbitrary: s)
  case 0
  then have "ok = False" "s' = s" by simp_all
  then show ?case by (intro exI[of _ "[]"]) simp
next
  case (Suc n)
  let ?cmd = "[''systemctl'', ''--user'', ''is-active'', nm]"
  obtain e out where r: "runCmd en (trace s) ?cmd = (e, out)" by (metis surj_pair)
  show ?case
  proof (cases e)
    case None
    then have "ok = True" "s' = emit (Printf ''Service %s is active'' [S nm]) (emit (Run ?cmd None out) s)"
      using Suc.prems r by (simp_all add: cmd_Run_def Let_def)
    then show ?thesis using r by (intro exI[of _ "[]"]) simp
  next
    case (Some err)
    let ?s1 = "time_Sleep (1 * Second) (emit (Run ?cmd (Some err) out) s)"
    have rec: "waitLoop en nm n ?s1 = (ok, s')"
      using Suc.prems r Some by (simp add: cmd_Run_def Let_def)
    from Suc.IH[OF rec] obtain fails where
      f: "trace s' = trace ?s1 @ failedPolls nm fails
                 @ (if ok then [Run ?cmd None (snd (runCmd en (trace ?s1 @ failedPolls nm fails) ?cmd)),
                                Printf ''Service %s is active'' [S nm]]
                    else [])"
      and l: "if ok then length fails < n else length fails = n"
      and g: "lastLogPosition s' = lastLogPosition ?s1" "lastMainLoopTime s' = lastMainLoopTime ?s1"
      by blast
    have t1: "trace ?s1 = trace s @ [Run ?cmd (Some err) out, Sleep (1 * Second)]"
      by (simp add: time_Sleep_def)
    show ?thesis
      using f l g unfolding t1
      by (intro exI[of _ "(err, out) # fails"]) (auto simp: failedPolls_Cons time_Sleep_def)
  qed
qed

lemma slow_eval:
  "waitForServiceActive slowStartEnv ''sunshine'' 30 initialState =
     (None, initialState\<lparr>trace :=
        [Printf ''Waiting up to %d seconds for %s...'' [I 30, S ''sunshine''],
         Run [''systemctl'', ''--user'', ''is-active'', ''sunshine''] (Some (ExitError ''exit status 3'')) (''activating'' @ [CHR 0x0A]),
         Sleep (1 * Second),
         Run [''systemctl'', ''--user'', ''is-active'', ''sunshine''] (Some (ExitError ''exit status 3'')) (''activating'' @ [CHR 0x0A]),
         Sleep (1 * Second),
         Run [''systemctl'', ''--user'', ''is-active'', ''sunshine''] None [],
         Printf ''Service %s is active'' [S ''sunshine'']]\<rparr>)"
  by (simp add: waitForServiceActive_def slowStartEnv_def quietEnv_def initialState_def
        cmd_Run_def time_Sleep_def emit_def Let_def numeral_eq_Suc)

lemma down_eval:
  "fst (waitForServiceActive downEnv ''sunshine'' 3 initialState)
     = Some (Errorf ''timeout waiting for sunshine'')"
  by (simp add: waitForServiceActive_def downEnv_def quietEnv_def initialState_def
        cmd_Run_def time_Sleep_def emit_def Let_def numeral_eq_Suc)

lemma Sub_lt:
  assumes "minDuration < cd" "cd \<le> maxDuration"
  shows "Sub t u < cd \<longleftrightarrow> t - u < cd"
  using assms by (auto simp: Sub_def Let_def)




lemma getSunshinePIDs_quietEnv:
  "getSunshinePIDs (quietEnv log) s =
     ([4242], s\<lparr>trace := trace s @ [ReadDir ''/proc'' (Inr [\<lparr>entryName = ''4242'', entryIsDir = True\<rparr>]),
                                    ReadFile ''/proc/4242/comm'' (Inr (''sunshine'' @ [CHR 0x0A]))]\<rparr>)"
  by (simp add: getSunshinePIDs_def quietEnv_def call_defs strconv_Atoi_def isDigit_def digitsValue_def
        Itoa_def natDigits.simps TrimSpace_def space_defs)



lemma cmd_Run_quietEnv:
  "cmd_Run (quietEnv log) args s = ((None, []), emit (Run args None []) s)"
  by (simp add: cmd_Run_def quietEnv_def)






lemma Itoa_15: "Itoa 15 = ''15''"
  by (simp add: Itoa_def natDigits.simps)

lemma Itoa_9: "Itoa 9 = ''9''"
  by (simp add: Itoa_def natDigits.simps)

lemma failedRuns_append: "failedRuns (xs @ ys) = failedRuns xs @ failedRuns ys"
  by (induction xs rule: failedRuns.induct) simp_all

lemma failureLogs_append: "failureLogs fmt (xs @ ys) = failureLogs fmt xs @ failureLogs fmt ys"
  by (induction fmt xs rule: failureLogs.induct) simp_all

lemma termLoop_shape:
  "\<exists>evs. termLoop en pids s = s\<lparr>trace := trace s @ evs\<rparr>
      \<and> commandsRun evs = map (\<lambda>pid. [''kill'', ''-15'', Itoa pid]) pids
      \<and> failedRuns evs = map (\<lambda>(pid, err). ([''kill'', ''-15'', Itoa pid], err))
                             (failureLogs ''SIGTERM to PID %d failed: %v'' evs)"
proof (induction pids arbitrary: s)
  case Nil
  show ?case by (intro exI[of _ "[]"]) simp
next
  case (Cons pid rest)
  let ?cmd = "[''kill'', ''-15'', Itoa pid]"
  let ?s0 = "emit (Printf ''Sending SIGTERM to PID %d...'' [I pid]) s"
  obtain e out where r: "runCmd en (trace ?s0) ?cmd = (e, out)" by (metis surj_pair)
  show ?case
  proof (cases e)
    case None
    let ?s1 = "emit (Run ?cmd None out) ?s0"
    from Cons.IH[of ?s1] obtain evs where
      i: "termLoop en rest ?s1 = ?s1\<lparr>trace := trace ?s1 @ evs\<rparr>"
      and c: "commandsRun evs = map (\<lambda>pid. [''kill'', ''-15'', Itoa pid]) rest"
      and f: "failedRuns evs = map (\<lambda>(pid, err). ([''kill'', ''-15'', Itoa pid], err))
                             (failureLogs ''SIGTERM to PID %d failed: %v'' evs)"
      by blast
    have step: "termLoop en (pid # rest) s = termLoop en rest ?s1"
      using r None by (simp add: killProcess_def cmd_Run_def Let_def Itoa_15)
    show ?thesis
      unfolding step i using c f
      by (intro exI[of _ "[Printf ''Sending SIGTERM to PID %d...'' [I pid], Run ?cmd None out] @ evs"])
         (simp add: emit_def)
  next
    case (Some err)
    let ?s1 = "emit (Printf ''SIGTERM to PID %d failed: %v'' [I pid, E err]) (emit (Run ?cmd (Some err) out) ?s0)"
    from Cons.IH[of ?s1] obtain evs where
      i: "termLoop en rest ?s1 = ?s1\<lparr>trace := trace ?s1 @ evs\<rparr>"
      and c: "commandsRun evs = map (\<lambda>pid. [''kill'', ''-15'', Itoa pid]) rest"
      and f: "failedRuns evs = map (\<lambda>(pid, err). ([''kill'', ''-15'', Itoa pid], err))
                             (failureLogs ''SIGTERM to PID %d failed: %v'' evs)"
      by blast
    have step: "termLoop en (pid # rest) s = termLoop en rest ?s1"
      using r Some by (simp add: killProcess_def cmd_Run_def Let_def Itoa_15)
    show ?thesis
      unfolding step i using c f
      by (intro exI[of _ "[Printf ''Sending SIGTERM to PID %d...'' [I pid], Run ?cmd (Some err) out,
                           Printf ''SIGTERM to PID %d failed: %v'' [I pid, E err]] @ evs"])
         (simp add: emit_def)
  qed
qed

lemma killLoop_shape:
  "\<exists>evs. killLoop en pids s = s\<lparr>trace := trace s @ evs\<rparr>
      \<and> commandsRun evs = map (\<lambda>pid. [''kill'', ''-9'', Itoa pid]) pids
      \<and> failedRuns evs = map (\<lambda>(pid, err). ([''kill'', ''-9'', Itoa pid], err))
                             (failureLogs ''SIGKILL to PID %d failed: %v'' evs)"
proof (induction pids arbitrary: s)
  case Nil
  show ?case by (intro exI[of _ "[]"]) simp
next
  case (Cons pid rest)
  let ?cmd = "[''kill'', ''-9'', Itoa pid]"
  obtain e out where r: "runCmd en (trace s) ?cmd = (e, out)" by (metis surj_pair)
  show ?case
  proof (cases e)
    case None
    let ?s1 = "emit (Run ?cmd None out) s"
    from Cons.IH[of ?s1] obtain evs where
      i: "killLoop en rest ?s1 = ?s1\<lparr>trace := trace ?s1 @ evs\<rparr>"
      and c: "commandsRun evs = map (\<lambda>pid. [''kill'', ''-9'', Itoa pid]) rest"
      and f: "failedRuns evs = map (\<lambda>(pid, err). ([''kill'', ''-9'', Itoa pid], err))
                             (failureLogs ''SIGKILL to PID %d failed: %v'' evs)"
      by blast
    have step: "killLoop en (pid # rest) s = killLoop en rest ?s1"
      using r None by (simp add: killProcess_def cmd_Run_def Let_def Itoa_9)
    show ?thesis
      unfolding step i using c f
      by (intro exI[of _ "[Run ?cmd None out] @ evs"]) (simp add: emit_def)
  next
    case (Some err)
    let ?s1 = "emit (Printf ''SIGKILL to PID %d failed: %v'' [I pid, E err]) (emit (Run ?cmd (Some err) out) s)"
    from Cons.IH[of ?s1] obtain evs where
      i: "killLoop en rest ?s1 = ?s1\<lparr>trace := trace ?s1 @ evs\<rparr>"
      and c: "commandsRun evs = map (\<lambda>pid. [''kill'', ''-9'', Itoa pid]) rest"
      and f: "failedRuns evs = map (\<lambda>(pid, err). ([''kill'', ''-9'', Itoa pid], err))
                             (failureLogs ''SIGKILL to PID %d failed: %v'' evs)"
      by blast
    have step: "killLoop en (pid # rest) s = killLoop en rest ?s1"
      using r Some by (simp add: killProcess_def cmd_Run_def Let_def Itoa_9)
    show ?thesis
      unfolding step i using c f
      by (intro exI[of _ "[Run ?cmd (Some err) out,
                           Printf ''SIGKILL to PID %d failed: %v'' [I pid, E err]] @ evs"])
         (simp add: emit_def)
  qed
qed

lemma pidLoop_matching:
  assumes "\<forall>tr path. readFile en tr path = comm path"
  shows "fst (pidLoop en entries acc s) = acc @ matchingPIDs comm entries"
proof (induction entries arbitrary: acc s)
  case Nil
  show ?case by (simp add: matchingPIDs_def)
next
  case (Cons entry rest)
  have m: "matchingPIDs comm (entry # rest) = matchingPIDs comm [entry] @ matchingPIDs comm rest"
    by (simp add: matchingPIDs_def)
  show ?case
    unfolding m using assms Cons.IH
    by (auto simp: matchingPIDs_def os_ReadFile_def Let_def split: option.splits sum.splits)
qed

lemma getSunshinePIDs_matching:
  assumes "\<forall>tr path. readFile en tr path = comm path"
  shows "fst (getSunshinePIDs en s) =
           (case readDir en (trace s) ''/proc'' of Inl err \<Rightarrow> [] | Inr entries \<Rightarrow> matchingPIDs comm entries)"
  using pidLoop_matching[OF assms, of _ "[]"]
  by (simp add: getSunshinePIDs_def os_ReadDir_def Let_def split: sum.splits)


lemma killAll_quietEnv:
  "killAllSunshineProcesses (quietEnv []) initialState =
     (None, initialState\<lparr>trace :=
        [Println [S ''Killing all sunshine processes...''],
         ReadDir ''/proc'' (Inr [\<lparr>entryName = ''4242'', entryIsDir = True\<rparr>]),
         ReadFile ''/proc/4242/comm'' (Inr (''sunshine'' @ [CHR 0x0A])),
         Printf ''Found %d sunshine process(es) to kill: %v'' [I 1, L [4242]],
         Printf ''Sending SIGTERM to PID %d...'' [I 4242],
         Run [''kill'', ''-15'', ''4242''] None [],
         Sleep (2 * Second),
         ReadDir ''/proc'' (Inr [\<lparr>entryName = ''4242'', entryIsDir = True\<rparr>]),
         ReadFile ''/proc/4242/comm'' (Inr (''sunshine'' @ [CHR 0x0A])),
         Printf ''Force killing %d remaining process(es): %v'' [I 1, L [4242]],
         Run [''kill'', ''-9'', ''4242''] None []]\<rparr>)"
  by (simp add: killAllSunshineProcesses_def getSunshinePIDs_quietEnv killProcess_def cmd_Run_quietEnv
        time_Sleep_def emit_def initialState_def Itoa_def natDigits.simps)







lemma checkForLogActivity_stat_error:
  "statFile en (trace s) (SunshineLogPath c) = Inl err
   \<Longrightarrow> checkForLogActivity en c s = (False, s\<lparr>trace := trace s @ [Stat (SunshineLogPath c) (Inl err)]\<rparr>)"
  by (simp add: checkForLogActivity_def os_Stat_def Let_def emit_def)






section \<open>Deduplication\<close>



section \<open>The empty second pattern\<close>

text \<open>
  C10. When \<open>EncoderFailedLogLine2\<close> is the empty string, every line contains it, so
  every line matches the encoder category, and the loop of \<open>isEncoderFailed\<close> computes the
  latest timestamp over all the lines that carry a parseable timestamp, whatever else
  they contain.
\<close>

theorem empty_second_pattern_matches_all:
  assumes "EncoderFailedLogLine2 c = []"
  shows "(\<forall>line. Contains line (EncoderFailedLogLine2 c)) \<and> (\<forall>line. encoderMatch c line) \<and>
         fst (encoderLoop en c ls latest s) = latestParsed en (\<lambda>line. True) ls latest"
  using assms by (simp add: encoderLoop_fst Contains_empty encoderMatch_def latestParsed_def)

theorem empty_second_pattern_matches_all_witness:
  "EncoderFailedLogLine2 (exampleConfig\<lparr>EncoderFailedLogLine2 := []\<rparr>) = []
   \<and> \<not> Contains ''[2025-01-01 10:00:00.000] Info: Starting main loop''
         (EncoderFailedLogLine (exampleConfig\<lparr>EncoderFailedLogLine2 := []\<rparr>))
   \<and> fst (encoderLoop (quietEnv []) (exampleConfig\<lparr>EncoderFailedLogLine2 := []\<rparr>)
            [''[2025-01-01 10:00:00.000] Info: Starting main loop''] zeroTime initialState)
       = 63871322400000000000"
proof -
  have h: "EncoderFailedLogLine2 (exampleConfig\<lparr>EncoderFailedLogLine2 := []\<rparr>) = []"
    by simp
  have n: "\<not> Contains ''[2025-01-01 10:00:00.000] Info: Starting main loop''
         (EncoderFailedLogLine (exampleConfig\<lparr>EncoderFailedLogLine2 := []\<rparr>))"
    by (simp add: exampleConfig_def Contains_def)
  have v: "latestParsed (quietEnv []) (\<lambda>line. True)
             [''[2025-01-01 10:00:00.000] Info: Starting main loop''] zeroTime = 63871322400000000000"
    by (simp add: latestParsed_def quietEnv_def parse_defs zeroTime_def)
  have e: "fst (encoderLoop (quietEnv []) (exampleConfig\<lparr>EncoderFailedLogLine2 := []\<rparr>)
                 [''[2025-01-01 10:00:00.000] Info: Starting main loop''] zeroTime initialState)
           = latestParsed (quietEnv []) (\<lambda>line. True)
               [''[2025-01-01 10:00:00.000] Info: Starting main loop''] zeroTime"
    using empty_second_pattern_matches_all[OF h] by blast
  show ?thesis using h n e[unfolded v] by blast
qed

section \<open>Rotation\<close>

text \<open>
  C2. Rotation reset, at the input on which the encoder scan fails to do it: the log has
  been rotated (83 bytes now, 138 recorded) and its only matching line is older than the
  stored timestamp. \<open>isEncoderFailed\<close> records the new size without comparing it, keeps
  both timestamps and reports nothing; \<open>isMonitorSleeping\<close>, on the same input, resets
  them to the zero time.
\<close>

theorem encoder_scan_ignores_rotation:
  "statFile (quietEnv olderLog) (trace rotatedState @ [Println [S ''Checking for encoder failures'']])
       (SunshineLogPath exampleConfig) = Inr 83
   \<and> 83 < lastLogSize rotatedState
   \<and> isEncoderFailed (quietEnv olderLog) exampleConfig rotatedState
       = ((False, None),
          rotatedState \<lparr> lastLogSize := 83,
            trace := [Println [S ''Checking for encoder failures''],
                      Stat (SunshineLogPath exampleConfig) (Inr 83),
                      Open (SunshineLogPath exampleConfig) (Inr \<lparr> bytes = olderLog, readErr = None \<rparr>),
                      Println [S ''Encoder failure already handled at'', T 63871322401000000000]] \<rparr>)
   \<and> lastEncoderFailureTime (snd (isMonitorSleeping (quietEnv olderLog) exampleConfig rotatedState)) = zeroTime"
  by (simp add: quietEnv_def scan_defs call_defs parse_defs olderLog_def exampleConfig_def initialState_def rotatedState_def)

section \<open>Monotonicity\<close>




section \<open>Corrupted log\<close>



section \<open>Waiting for the service\<close>

text \<open>
  C7. Service activation polling: \<open>waitForServiceActive\<close> asks the service manager
  \<open>is-active\<close>, sleeps one second after each query that fails, and asks at most
  \<open>timeoutSeconds\<close> times (30 in the restart sequence). It returns success with the
  first query that succeeds, and nothing follows that query but the log line; it returns
  the timeout error exactly when all the \<open>timeoutSeconds\<close> queries have failed.
\<close>

theorem service_activation_polling:
  assumes "waitForServiceActive en serviceName timeoutSeconds s = (r, s')"
  shows "\<exists>fails out.
           trace s' = trace s
              @ [Printf ''Waiting up to %d seconds for %s...'' [I timeoutSeconds, S serviceName]]
              @ failedPolls serviceName fails
              @ (if r = None
                 then [Run [''systemctl'', ''--user'', ''is-active'', serviceName] None out,
                       Printf ''Service %s is active'' [S serviceName]]
                 else [])
         \<and> (r = None \<longrightarrow> length fails < nat timeoutSeconds)
         \<and> (r \<noteq> None \<longrightarrow> length fails = nat timeoutSeconds
                          \<and> r = Some (Errorf (''timeout waiting for '' @ serviceName)))"
proof -
  let ?s0 = "emit (Printf ''Waiting up to %d seconds for %s...'' [I timeoutSeconds, S serviceName]) s"
  obtain ok s1 where w: "waitLoop en serviceName (nat timeoutSeconds) ?s0 = (ok, s1)"
    by (metis surj_pair)
  have res: "r = (if ok then None else Some (Errorf (''timeout waiting for '' @ serviceName)))" "s' = s1"
    using assms w by (auto simp: waitForServiceActive_def split: bool.splits)
  from waitLoop_shape[OF w] obtain fails where
    f: "trace s1 = trace ?s0 @ failedPolls serviceName fails
                 @ (if ok then [Run [''systemctl'', ''--user'', ''is-active'', serviceName] None
                                  (snd (runCmd en (trace ?s0 @ failedPolls serviceName fails)
                                          [''systemctl'', ''--user'', ''is-active'', serviceName])),
                                Printf ''Service %s is active'' [S serviceName]]
                    else [])"
    and l: "if ok then length fails < nat timeoutSeconds else length fails = nat timeoutSeconds"
    by blast
  show ?thesis
    using f l res
    by (intro exI[of _ fails]
              exI[of _ "snd (runCmd en (trace ?s0 @ failedPolls serviceName fails)
                               [''systemctl'', ''--user'', ''is-active'', serviceName])"])
       (auto split: if_splits)
qed

theorem service_activation_polling_witness:
  "fst (waitForServiceActive slowStartEnv ''sunshine'' 30 initialState) = None
   \<and> (\<exists>fails out. length fails < 30
         \<and> trace (snd (waitForServiceActive slowStartEnv ''sunshine'' 30 initialState))
             = [Printf ''Waiting up to %d seconds for %s...'' [I 30, S ''sunshine'']]
               @ failedPolls ''sunshine'' fails
               @ [Run [''systemctl'', ''--user'', ''is-active'', ''sunshine''] None out,
                  Printf ''Service %s is active'' [S ''sunshine'']])
   \<and> fst (waitForServiceActive downEnv ''sunshine'' 3 initialState)
       = Some (Errorf ''timeout waiting for sunshine'')"
proof -
  obtain s' where e: "waitForServiceActive slowStartEnv ''sunshine'' 30 initialState = (None, s')"
    using slow_eval by blast
  from service_activation_polling[OF e]
  have "\<exists>fails out. length fails < 30
         \<and> trace s' = [Printf ''Waiting up to %d seconds for %s...'' [I 30, S ''sunshine'']]
               @ failedPolls ''sunshine'' fails
               @ [Run [''systemctl'', ''--user'', ''is-active'', ''sunshine''] None out,
                  Printf ''Service %s is active'' [S ''sunshine'']]"
    by (simp add: initialState_def) blast
  then show ?thesis using e down_eval by simp
qed

section \<open>Wake cooldown\<close>

text \<open>
  C8. Wake cooldown: for a cooldown period in the range of a duration (two minutes in
  \<open>runWakeOnConnect\<close>), \<open>shouldWakeMonitor\<close> returns true exactly when the last main loop
  time is at least the cooldown period before the clock reading of the first check and
  the last wake time is at least the cooldown period before the clock reading of the
  second check; it returns false as soon as one of the two is more recent.
\<close>

theorem wake_cooldown:
  assumes "minDuration < cooldownPeriod" and "cooldownPeriod \<le> maxDuration"
  shows "fst (shouldWakeMonitor en cooldownPeriod s) =
           (cooldownPeriod \<le> clock en (trace s) - lastMainLoopTime s
            \<and> cooldownPeriod \<le> clock en (trace s @ [Now (clock en (trace s))]) - lastWakeTime s)"
  using Sub_lt[OF assms]
  by (auto simp: shouldWakeMonitor_def time_Since_def time_Now_def Let_def split: prod.splits)


theorem wake_cooldown_witness:
  "minDuration < 2 * Minute \<and> 2 * Minute \<le> maxDuration
   \<and> fst (shouldWakeMonitor (quietEnv []) (2 * Minute) initialState)
   \<and> \<not> fst (shouldWakeMonitor (quietEnv []) (2 * Minute)
               (initialState\<lparr>lastWakeTime := exampleNow - 1 * Minute\<rparr>))
   \<and> \<not> fst (shouldWakeMonitor (quietEnv []) (2 * Minute)
               (initialState\<lparr>lastMainLoopTime := exampleNow - 1 * Minute\<rparr>))"
proof -
  have a: "minDuration < 2 * Minute" and b: "2 * Minute \<le> maxDuration"
    by (simp_all add: minDuration_def maxDuration_def Minute_def Second_def)
  have c: "clock (quietEnv []) = (\<lambda>tr. exampleNow)"
    by (simp add: quietEnv_def)
  show ?thesis
    using a b wake_cooldown[OF a b, of "quietEnv []" initialState]
      wake_cooldown[OF a b, of "quietEnv []" "initialState\<lparr>lastWakeTime := exampleNow - 1 * Minute\<rparr>"]
      wake_cooldown[OF a b, of "quietEnv []" "initialState\<lparr>lastMainLoopTime := exampleNow - 1 * Minute\<rparr>"]
    by (simp add: c initialState_def exampleNow_def Minute_def Second_def zeroTime_def)
qed

section \<open>Restart verification\<close>




section \<open>Graduated kill\<close>

text \<open>
  C6, as amended. \<open>killAllSunshineProcesses\<close> enumerates the processes named \<open>sunshine\<close>
  from \<open>/proc\<close>. When it finds none it returns at once. Otherwise it sends the signal
  15 to each of them in order, whatever the outcome of each command, and logs every
  command that fails; then it sleeps two seconds, enumerates again, and sends the signal
  9 to exactly the processes of that second enumeration, again logging the failures; it
  always returns no error. When the content of the files of \<open>/proc\<close> does not depend on
  the moment, the enumeration yields the directories of \<open>/proc\<close> with a numeric name
  whose \<open>comm\<close> file holds \<open>sunshine\<close>.
\<close>

theorem graduated_kill:
  assumes first: "getSunshinePIDs en (emit (Println [S ''Killing all sunshine processes...'']) s) = (pids, s1)"
  shows "(pids = [] \<longrightarrow>
            killAllSunshineProcesses en s = (None, emit (Println [S ''No sunshine processes found'']) s1))
       \<and> (pids \<noteq> [] \<longrightarrow>
            (\<exists>termEvs remainingPids sR killEvs.
                commandsRun termEvs = map (\<lambda>pid. [''kill'', ''-15'', Itoa pid]) pids
              \<and> failedRuns termEvs = map (\<lambda>(pid, err). ([''kill'', ''-15'', Itoa pid], err))
                                         (failureLogs ''SIGTERM to PID %d failed: %v'' termEvs)
              \<and> getSunshinePIDs en
                   (s1\<lparr>trace := trace s1
                          @ [Printf ''Found %d sunshine process(es) to kill: %v'' [I (int (length pids)), L pids]]
                          @ termEvs @ [Sleep (2 * Second)]\<rparr>) = (remainingPids, sR)
              \<and> commandsRun killEvs = map (\<lambda>pid. [''kill'', ''-9'', Itoa pid]) remainingPids
              \<and> failedRuns killEvs = map (\<lambda>(pid, err). ([''kill'', ''-9'', Itoa pid], err))
                                         (failureLogs ''SIGKILL to PID %d failed: %v'' killEvs)
              \<and> killAllSunshineProcesses en s = (None, sR\<lparr>trace := trace sR @ killEvs\<rparr>)))
       \<and> ((\<forall>tr path. readFile en tr path = comm path) \<longrightarrow>
            pids = (case readDir en (trace s @ [Println [S ''Killing all sunshine processes...'']]) ''/proc'' of
                      Inl err \<Rightarrow> [] | Inr entries \<Rightarrow> matchingPIDs comm entries))"
proof -
  have A: "pids = [] \<longrightarrow>
            killAllSunshineProcesses en s = (None, emit (Println [S ''No sunshine processes found'']) s1)"
    using first by (simp add: killAllSunshineProcesses_def)
  have C: "(\<forall>tr path. readFile en tr path = comm path) \<longrightarrow>
            pids = (case readDir en (trace s @ [Println [S ''Killing all sunshine processes...'']]) ''/proc'' of
                      Inl err \<Rightarrow> [] | Inr entries \<Rightarrow> matchingPIDs comm entries)"
    using getSunshinePIDs_matching[of en comm "emit (Println [S ''Killing all sunshine processes...'']) s"] first
    by simp
  have B: "pids \<noteq> [] \<longrightarrow>
            (\<exists>termEvs remainingPids sR killEvs.
                commandsRun termEvs = map (\<lambda>pid. [''kill'', ''-15'', Itoa pid]) pids
              \<and> failedRuns termEvs = map (\<lambda>(pid, err). ([''kill'', ''-15'', Itoa pid], err))
                                         (failureLogs ''SIGTERM to PID %d failed: %v'' termEvs)
              \<and> getSunshinePIDs en
                   (s1\<lparr>trace := trace s1
                          @ [Printf ''Found %d sunshine process(es) to kill: %v'' [I (int (length pids)), L pids]]
                          @ termEvs @ [Sleep (2 * Second)]\<rparr>) = (remainingPids, sR)
              \<and> commandsRun killEvs = map (\<lambda>pid. [''kill'', ''-9'', Itoa pid]) remainingPids
              \<and> failedRuns killEvs = map (\<lambda>(pid, err). ([''kill'', ''-9'', Itoa pid], err))
                                         (failureLogs ''SIGKILL to PID %d failed: %v'' killEvs)
              \<and> killAllSunshineProcesses en s = (None, sR\<lparr>trace := trace sR @ killEvs\<rparr>))"
  proof
    assume ne: "pids \<noteq> []"
    let ?sF = "emit (Printf ''Found %d sunshine process(es) to kill: %v'' [I (int (length pids)), L pids]) s1"
    from termLoop_shape[of en pids ?sF] obtain termEvs where
      t: "termLoop en pids ?sF = ?sF\<lparr>trace := trace ?sF @ termEvs\<rparr>"
      and tc: "commandsRun termEvs = map (\<lambda>pid. [''kill'', ''-15'', Itoa pid]) pids"
      and tf: "failedRuns termEvs = map (\<lambda>(pid, err). ([''kill'', ''-15'', Itoa pid], err))
                                         (failureLogs ''SIGTERM to PID %d failed: %v'' termEvs)"
      by blast
    let ?sS = "s1\<lparr>trace := trace s1
                          @ [Printf ''Found %d sunshine process(es) to kill: %v'' [I (int (length pids)), L pids]]
                          @ termEvs @ [Sleep (2 * Second)]\<rparr>"
    have sl: "time_Sleep (2 * Second) (termLoop en pids ?sF) = ?sS"
      unfolding t by (simp add: time_Sleep_def emit_def)
    obtain remainingPids sR where g: "getSunshinePIDs en ?sS = (remainingPids, sR)" by (metis surj_pair)
    show "\<exists>termEvs remainingPids sR killEvs.
                commandsRun termEvs = map (\<lambda>pid. [''kill'', ''-15'', Itoa pid]) pids
              \<and> failedRuns termEvs = map (\<lambda>(pid, err). ([''kill'', ''-15'', Itoa pid], err))
                                         (failureLogs ''SIGTERM to PID %d failed: %v'' termEvs)
              \<and> getSunshinePIDs en
                   (s1\<lparr>trace := trace s1
                          @ [Printf ''Found %d sunshine process(es) to kill: %v'' [I (int (length pids)), L pids]]
                          @ termEvs @ [Sleep (2 * Second)]\<rparr>) = (remainingPids, sR)
              \<and> commandsRun killEvs = map (\<lambda>pid. [''kill'', ''-9'', Itoa pid]) remainingPids
              \<and> failedRuns killEvs = map (\<lambda>(pid, err). ([''kill'', ''-9'', Itoa pid], err))
                                         (failureLogs ''SIGKILL to PID %d failed: %v'' killEvs)
              \<and> killAllSunshineProcesses en s = (None, sR\<lparr>trace := trace sR @ killEvs\<rparr>)"
    proof (cases "remainingPids = []")
      case True
      have "killAllSunshineProcesses en s = (None, sR\<lparr>trace := trace sR @ []\<rparr>)"
        using first ne sl g True by (simp add: killAllSunshineProcesses_def)
      then show ?thesis using tc tf g True
        by (intro exI[of _ termEvs] exI[of _ remainingPids] exI[of _ sR] exI[of _ "[]"]) simp
    next
      case False
      let ?sK = "emit (Printf ''Force killing %d remaining process(es): %v''
                         [I (int (length remainingPids)), L remainingPids]) sR"
      from killLoop_shape[of en remainingPids ?sK] obtain evs where
        k: "killLoop en remainingPids ?sK = ?sK\<lparr>trace := trace ?sK @ evs\<rparr>"
        and kc: "commandsRun evs = map (\<lambda>pid. [''kill'', ''-9'', Itoa pid]) remainingPids"
        and kf: "failedRuns evs = map (\<lambda>(pid, err). ([''kill'', ''-9'', Itoa pid], err))
                                         (failureLogs ''SIGKILL to PID %d failed: %v'' evs)"
        by blast
      let ?killEvs = "[Printf ''Force killing %d remaining process(es): %v''
                         [I (int (length remainingPids)), L remainingPids]] @ evs"
      have "killAllSunshineProcesses en s = (None, sR\<lparr>trace := trace sR @ ?killEvs\<rparr>)"
        using first ne sl g False k by (simp add: killAllSunshineProcesses_def emit_def)
      then show ?thesis using tc tf g kc kf
        by (intro exI[of _ termEvs] exI[of _ remainingPids] exI[of _ sR] exI[of _ ?killEvs]) simp
    qed
  qed
  show ?thesis using A B C by blast
qed

theorem graduated_kill_witness:
  "getSunshinePIDs (quietEnv []) (emit (Println [S ''Killing all sunshine processes...'']) initialState)
     = ([4242], initialState\<lparr>trace :=
          [Println [S ''Killing all sunshine processes...''],
           ReadDir ''/proc'' (Inr [\<lparr>entryName = ''4242'', entryIsDir = True\<rparr>]),
           ReadFile ''/proc/4242/comm'' (Inr (''sunshine'' @ [CHR 0x0A]))]\<rparr>)
   \<and> commandsRun (trace (snd (killAllSunshineProcesses (quietEnv []) initialState)))
       = [[''kill'', ''-15'', ''4242''], [''kill'', ''-9'', ''4242'']]
   \<and> (\<exists>termEvs remainingPids sR killEvs.
          commandsRun termEvs = map (\<lambda>pid. [''kill'', ''-15'', Itoa pid]) [4242]
        \<and> commandsRun killEvs = map (\<lambda>pid. [''kill'', ''-9'', Itoa pid]) remainingPids
        \<and> killAllSunshineProcesses (quietEnv []) initialState = (None, sR\<lparr>trace := trace sR @ killEvs\<rparr>))"
proof -
  have g: "getSunshinePIDs (quietEnv []) (emit (Println [S ''Killing all sunshine processes...'']) initialState)
     = ([4242], initialState\<lparr>trace :=
          [Println [S ''Killing all sunshine processes...''],
           ReadDir ''/proc'' (Inr [\<lparr>entryName = ''4242'', entryIsDir = True\<rparr>]),
           ReadFile ''/proc/4242/comm'' (Inr (''sunshine'' @ [CHR 0x0A]))]\<rparr>)"
    by (simp add: getSunshinePIDs_quietEnv emit_def initialState_def)
  have c: "commandsRun (trace (snd (killAllSunshineProcesses (quietEnv []) initialState)))
       = [[''kill'', ''-15'', ''4242''], [''kill'', ''-9'', ''4242'']]"
    by (simp add: killAll_quietEnv)
  have "\<exists>termEvs remainingPids sR killEvs.
          commandsRun termEvs = map (\<lambda>pid. [''kill'', ''-15'', Itoa pid]) [4242]
        \<and> commandsRun killEvs = map (\<lambda>pid. [''kill'', ''-9'', Itoa pid]) remainingPids
        \<and> killAllSunshineProcesses (quietEnv []) initialState = (None, sR\<lparr>trace := trace sR @ killEvs\<rparr>)"
    using graduated_kill[OF g] by blast
  then show ?thesis using g c by blast
qed

text \<open>
  C6 as it stands fails when no process is found: there is then no wait and no second
  enumeration.
\<close>

theorem graduated_kill_counterexample:
  "killAllSunshineProcesses idleEnv initialState =
     (None, initialState\<lparr>trace := [Println [S ''Killing all sunshine processes...''],
                                    ReadDir ''/proc'' (Inr []),
                                    Println [S ''No sunshine processes found'']]\<rparr>)
   \<and> Sleep (2 * Second) \<notin> set (trace (snd (killAllSunshineProcesses idleEnv initialState)))"
  by (simp add: killAllSunshineProcesses_def getSunshinePIDs_def idleEnv_def quietEnv_def call_defs
        initialState_def)

section \<open>Log access errors\<close>




end
